theory Spec2Isabelle
  imports Complex_Main
begin

section \<open>Data model of the client (client.js and the mobile bridge)\<close>

text \<open>
  JavaScript numbers are modelled as real numbers: rounding, infinities and NaN of the
  IEEE doubles are outside the model. A three-element array (\<open>tempVec\<close>, \<open>forward\<close>,
  \<open>origin\<close>) is a triple read with \<open>v0\<close>, \<open>v1\<close>, \<open>v2\<close> for the indices 0, 1, 2.
\<close>

type_synonym vec3 = "real \<times> real \<times> real"

definition v0 :: "vec3 \<Rightarrow> real" where
  "v0 v = fst v"

definition v1 :: "vec3 \<Rightarrow> real" where
  "v1 v = fst (snd v)"

definition v2 :: "vec3 \<Rightarrow> real" where
  "v2 v = snd (snd v)"

datatype EntityType = PLAYER | JOIN | SHOOT

text \<open>\<open>new GameEntity(type, x, y, z, dx, dy, dz)\<close>: the seven constructor arguments.\<close>

record GameEntity =
  e_type :: EntityType
  e_x :: real
  e_y :: real
  e_z :: real
  e_dx :: real
  e_dy :: real
  e_dz :: real

text \<open>The local player is a \<open>GameEntity\<close> with the fields client.js adds to it
  (lines 8 to 11): name, pitch, yaw and the queue of pending actions.\<close>

record Player = GameEntity +
  p_name :: string
  pitch :: real
  yaw :: real
  actions :: "GameEntity list"

text \<open>One entry of the key table: \<open>keys[k].down\<close> and \<open>keys[k].downCount\<close>.\<close>

record Key =
  down :: bool
  downCount :: nat

type_synonym Keys = "nat \<Rightarrow> Key"

text \<open>Key codes. The bridge spells out \<open>KEY_W\<close>, \<open>KEY_S\<close>, \<open>KEY_A\<close>, \<open>KEY_D\<close> and
  \<open>KEY_SPACE\<close> ("from keys.js"). The other key constants of client.js are declared in
  keys.js, which is not among the sources: they are parameters (see \<open>Env\<close> below).\<close>

definition KEY_W :: nat where
  "KEY_W = 87"

definition KEY_S :: nat where
  "KEY_S = 83"

definition KEY_A :: nat where
  "KEY_A = 65"

definition KEY_D :: nat where
  "KEY_D = 68"

definition KEY_SPACE :: nat where
  "KEY_SPACE = 32"

text \<open>The snapshot pushed by the server (\<open>ServerGameState\<close>): game id, seed, started
  flag, alive count and entity list. client.js reads \<open>gameId\<close>, \<open>seed\<close> and \<open>entities\<close>
  (which may be absent, line 217) directly and the rest through helper functions.\<close>

record ServerGameState =
  gameId :: int
  seed :: int
  started :: bool
  aliveCount :: int
  entities :: "GameEntity list option"

text \<open>\<open>gameMap.getY(x, z)\<close>: the only part of a \<open>GameMap\<close> that client.js uses.\<close>

record GameMap =
  getY :: "real \<Rightarrow> real \<Rightarrow> real"

text \<open>What a buffer set holds, in order: world geometry, the geometry of one entity,
  the translucent blue circle wall.\<close>

datatype geom = WorldGeom nat | EntityGeom GameEntity | BlueCircle

datatype Usage = STATIC_DRAW | DYNAMIC_DRAW

record BufferSet =
  usage :: Usage
  quads :: "geom list"
  uploaded :: "geom list"

text \<open>Constants and functions that client.js uses and other files of the repository
  declare (constants.js, keys.js, the vector library, the server state helpers): they are
  parameters of the model.\<close>

record Env =
  KEY_UP :: nat
  KEY_DOWN :: nat
  KEY_LEFT :: nat
  KEY_RIGHT :: nat
  KEY_Z :: nat
  KEY_Q :: nat
  KEY_M :: nat
  KEY_ESCAPE :: nat
  RUN_SPEED :: real
  GRAVITY :: real
  PLAYER_HALF_HEIGHT :: real
  JUMP_POWER :: real
  LOBBY_ID :: int
  forward :: vec3
  origin :: vec3
  rotateX :: "vec3 \<Rightarrow> vec3 \<Rightarrow> real \<Rightarrow> vec3"
  rotateY :: "vec3 \<Rightarrow> vec3 \<Rightarrow> real \<Rightarrow> vec3"
  normalizeRadians :: "real \<Rightarrow> real"
  updateKeys :: "Keys \<Rightarrow> Keys"
  isStarted :: "ServerGameState \<Rightarrow> bool"
  isCurrentPlayerAlive :: "ServerGameState \<Rightarrow> bool"

text \<open>The module-level variables of client.js and of the bridge. A snapshot is an
  object: \<open>gameState\<close> holds a reference (or null) into the store \<open>snapshots\<close>.
  \<open>window_player\<close>, \<open>window_keys\<close> and \<open>window_shoot\<close> say whether \<open>window.player\<close>,
  \<open>window.keys\<close> and \<open>window.shoot\<close> are defined, which the bridge tests before it
  touches them. \<open>canvas3d\<close> is what the
  draw calls have put on the 3D canvas since it was last cleared.\<close>

record Client =
  player :: Player
  localEntities :: "GameEntity list"
  staticBuffers :: "BufferSet option"
  dynamicBuffers :: "BufferSet option"
  pointerLocked :: bool
  mapOpen :: bool
  mouseX :: real
  mouseY :: real
  gameState :: "nat option"
  snapshots :: "nat \<Rightarrow> ServerGameState"
  gameMap :: "GameMap option"
  zoom :: bool
  zoomLevel :: int
  then_time :: real
  keys :: Keys
  tempVec :: vec3
  isMobile :: bool
  joystickAngle :: real
  joystickForce :: real
  joystickActive :: bool
  window_player :: bool
  window_keys :: bool
  window_shoot :: bool
  canvas3d :: "geom list"


section \<open>The local predictor: handleKeys\<close>

text \<open>Lines 288 to 310: horizontal velocity is zeroed, then each group of movement keys
  that is held overwrites it (and takes 0.02 off the vertical velocity).\<close>

definition setVelocity :: "Env \<Rightarrow> Keys \<Rightarrow> vec3 \<Rightarrow> Player \<Rightarrow> Player" where
  "setVelocity E ks tv p =
    (let p0 = p\<lparr>e_dx := 0, e_dz := 0\<rparr>;
         p1 = (if down (ks (KEY_UP E)) \<or> down (ks KEY_W) \<or> down (ks (KEY_Z E))
               then p0\<lparr>e_dx := RUN_SPEED E * v0 tv, e_dz := RUN_SPEED E * v2 tv,
                       e_dy := e_dy p0 - 0.02\<rparr>
               else p0);
         p2 = (if down (ks (KEY_DOWN E)) \<or> down (ks KEY_S)
               then p1\<lparr>e_dx := - RUN_SPEED E * v0 tv, e_dz := - RUN_SPEED E * v2 tv,
                       e_dy := e_dy p1 - 0.02\<rparr>
               else p1);
         p3 = (if down (ks (KEY_LEFT E)) \<or> down (ks KEY_A) \<or> down (ks (KEY_Q E))
               then p2\<lparr>e_dx := - RUN_SPEED E * v2 tv, e_dz := RUN_SPEED E * v0 tv,
                       e_dy := e_dy p2 - 0.02\<rparr>
               else p2);
         p4 = (if down (ks (KEY_RIGHT E)) \<or> down (ks KEY_D)
               then p3\<lparr>e_dx := RUN_SPEED E * v2 tv, e_dz := - RUN_SPEED E * v0 tv,
                       e_dy := e_dy p3 - 0.02\<rparr>
               else p3)
     in p4)"

text \<open>Lines 311 to 317: the map key toggles the overview map.\<close>

definition toggleMap :: "Env \<Rightarrow> Keys \<Rightarrow> bool \<Rightarrow> bool" where
  "toggleMap E ks m =
    (if downCount (ks (KEY_M E)) = 1 \<or> (m \<and> downCount (ks (KEY_ESCAPE E)) = 1)
     then (if \<not> m then True else False)
     else m)"

text \<open>Lines 319 to 323: position is integrated, gravity is applied to the vertical
  velocity before the vertical position moves.\<close>

definition integrate :: "Env \<Rightarrow> real \<Rightarrow> Player \<Rightarrow> Player" where
  "integrate E deltaTime p =
    (let p1 = p\<lparr>e_x := e_x p + deltaTime * e_dx p\<rparr>;
         p2 = p1\<lparr>e_z := e_z p1 + deltaTime * e_dz p1\<rparr>;
         p3 = p2\<lparr>e_dy := e_dy p2 - deltaTime * GRAVITY E\<rparr>;
         p4 = p3\<lparr>e_y := e_y p3 + deltaTime * e_dy p3\<rparr>
     in p4)"

text \<open>Lines 325 to 333: the ground clamp and the jump.\<close>

definition groundClamp :: "Env \<Rightarrow> GameMap \<Rightarrow> Keys \<Rightarrow> Player \<Rightarrow> Player" where
  "groundClamp E gm ks p =
    (let groundY = getY gm (e_x p) (e_z p)
     in if e_y p < groundY + PLAYER_HALF_HEIGHT E
        then (let p1 = p\<lparr>e_dy := 0\<rparr>;
                  p2 = p1\<lparr>e_y := groundY + PLAYER_HALF_HEIGHT E\<rparr>
              in if downCount (ks KEY_SPACE) = 1 then p2\<lparr>e_dy := JUMP_POWER E\<rparr> else p2)
        else p)"

text \<open>\<open>handleKeys(deltaTime)\<close>: nothing happens without a map; otherwise the key table
  is brought up to date, the forward axis is rotated by the yaw into \<open>tempVec\<close>, and the
  four stages run in the order of the source.\<close>

definition handleKeys :: "Env \<Rightarrow> real \<Rightarrow> Client \<Rightarrow> Client" where
  "handleKeys E deltaTime s =
    (case gameMap s of
       None \<Rightarrow> s
     | Some gm \<Rightarrow>
        (let ks = updateKeys E (keys s);
             tv = rotateY E (forward E) (origin E) (yaw (player s));
             p1 = setVelocity E ks tv (player s);
             m = toggleMap E ks (mapOpen s);
             p2 = integrate E deltaTime p1;
             p3 = groundClamp E gm ks p2
         in s\<lparr>keys := ks, tempVec := tv, player := p3, mapOpen := m\<rparr>))"

text \<open>The four groups of movement keys, as the conditions of lines 291, 296, 301 and
  306 read them, and the number of groups that are held.\<close>

definition forwardHeld :: "Env \<Rightarrow> Keys \<Rightarrow> bool" where
  "forwardHeld E ks = (down (ks (KEY_UP E)) \<or> down (ks KEY_W) \<or> down (ks (KEY_Z E)))"

definition backwardHeld :: "Env \<Rightarrow> Keys \<Rightarrow> bool" where
  "backwardHeld E ks = (down (ks (KEY_DOWN E)) \<or> down (ks KEY_S))"

definition leftHeld :: "Env \<Rightarrow> Keys \<Rightarrow> bool" where
  "leftHeld E ks = (down (ks (KEY_LEFT E)) \<or> down (ks KEY_A) \<or> down (ks (KEY_Q E)))"

definition rightHeld :: "Env \<Rightarrow> Keys \<Rightarrow> bool" where
  "rightHeld E ks = (down (ks (KEY_RIGHT E)) \<or> down (ks KEY_D))"

definition heldGroups :: "Env \<Rightarrow> Keys \<Rightarrow> nat" where
  "heldGroups E ks =
    (if forwardHeld E ks then 1 else 0) + (if backwardHeld E ks then 1 else 0)
    + (if leftHeld E ks then 1 else 0) + (if rightHeld E ks then 1 else 0)"

text \<open>The player as the ground clamp receives it: the first three stages of
  \<open>handleKeys\<close> applied to the current player.\<close>

definition beforeClamp :: "Env \<Rightarrow> real \<Rightarrow> Client \<Rightarrow> Player" where
  "beforeClamp E deltaTime s =
    integrate E deltaTime
      (setVelocity E (updateKeys E (keys s))
         (rotateY E (forward E) (origin E) (yaw (player s))) (player s))"

text \<open>The condition under which line 331 (\<open>player.dy = JUMP_POWER\<close>) runs in a step.\<close>

definition jumpImpulse :: "Env \<Rightarrow> real \<Rightarrow> Client \<Rightarrow> bool" where
  "jumpImpulse E deltaTime s =
    (case gameMap s of
       None \<Rightarrow> False
     | Some gm \<Rightarrow>
        (let p = beforeClamp E deltaTime s
         in e_y p < getY gm (e_x p) (e_z p) + PLAYER_HALF_HEIGHT E
            \<and> downCount (updateKeys E (keys s) KEY_SPACE) = 1))"

text \<open>Consecutive frames with no input event in between: for each frame, whether the
  jump impulse was given in it.\<close>

fun impulses :: "Env \<Rightarrow> real list \<Rightarrow> Client \<Rightarrow> bool list" where
  "impulses E [] s = []"
| "impulses E (dt # dts) s = jumpImpulse E dt s # impulses E dts (handleKeys E dt s)"

text \<open>Modelled from the spec: \<open>updateKeys()\<close> of keys.js is not among the sources. The
  spec gives every input a "down" flag and a "down transition count" for the current
  frame, kept by per-frame bookkeeping: the count of a key that is down goes up by one in
  each frame and the count of a released key goes back to zero, so that a count of one
  marks the frame in which the key went down.\<close>

definition updateKeys_spec :: "Keys \<Rightarrow> Keys" where
  "updateKeys_spec ks =
    (\<lambda>k. if down (ks k) then (ks k)\<lparr>downCount := downCount (ks k) + 1\<rparr>
         else (ks k)\<lparr>downCount := 0\<rparr>)"

text \<open>What the bookkeeping must do for the edge trigger: it leaves \<open>down\<close> alone and
  counts the frames of a key that is down.\<close>

definition countsHeldFrames :: "Env \<Rightarrow> bool" where
  "countsHeldFrames E =
    (\<forall>ks k. down (updateKeys E ks k) = down (ks k)
       \<and> (down (ks k) \<longrightarrow> downCount (updateKeys E ks k) = downCount (ks k) + 1))"

section \<open>Network state: the update handler\<close>

text \<open>Lines 88 to 91: \<open>gameState = newGameState\<close>. The payload is a reference to the
  received object (or null).\<close>

definition onUpdate :: "nat option \<Rightarrow> Client \<Rightarrow> Client" where
  "onUpdate newGameState s = s\<lparr>gameState := newGameState\<rparr>"

section \<open>Actions: createClientEvent and shoot\<close>

definition createClientEvent :: "Env \<Rightarrow> EntityType \<Rightarrow> Client \<Rightarrow> Client" where
  "createClientEvent E eventType s =
    (let t1 = rotateX E (forward E) (origin E) (pitch (player s));
         t2 = rotateY E t1 (origin E) (yaw (player s));
         p = player s;
         a = \<lparr>e_type = eventType, e_x = e_x p, e_y = e_y p, e_z = e_z p,
              e_dx = v0 t2, e_dy = v1 t2, e_dz = v2 t2\<rparr>
     in s\<lparr>tempVec := t2, player := p\<lparr>actions := actions p @ [a]\<rparr>\<rparr>)"

text \<open>\<open>shoot()\<close>; \<open>r1\<close> and \<open>r2\<close> are the values of the two calls of \<open>Math.random()\<close>, in
  the order of the calls. Sound and logging are outside the model.\<close>

definition shoot :: "Env \<Rightarrow> real \<Rightarrow> real \<Rightarrow> Client \<Rightarrow> Client" where
  "shoot E r1 r2 s =
    (if (case gameState s of
           None \<Rightarrow> False
         | Some g \<Rightarrow> \<not> isCurrentPlayerAlive E (snapshots s g))
     then s
     else (let s1 = createClientEvent E SHOOT s;
               p1 = (player s1)\<lparr>pitch := pitch (player s1) - 0.02 * r1\<rparr>;
               p2 = p1\<lparr>yaw := yaw p1 + 0.02 * r2 - 0.01\<rparr>
           in s1\<lparr>player := p2\<rparr>))"

text \<open>Lines 176 to 180: the key-down listener of the window.\<close>

definition onKeyDown :: "Env \<Rightarrow> string \<Rightarrow> real \<Rightarrow> real \<Rightarrow> Client \<Rightarrow> Client" where
  "onKeyDown E key r1 r2 s = (if key = ''f'' \<or> key = ''F'' then shoot E r1 r2 s else s)"

section \<open>Pointer and zoom\<close>

text \<open>Lines 139 to 155: the right mouse button holds the zoom, \<open>toggleZoom\<close> flips it.\<close>

definition onMouseDown :: "int \<Rightarrow> Client \<Rightarrow> Client" where
  "onMouseDown button s = (if button = 2 then s\<lparr>zoom := True\<rparr> else s)"

definition onMouseUp :: "int \<Rightarrow> Client \<Rightarrow> Client" where
  "onMouseUp button s = (if button = 2 then s\<lparr>zoom := False\<rparr> else s)"

definition toggleZoom :: "Client \<Rightarrow> Client" where
  "toggleZoom s = s\<lparr>zoom := \<not> zoom s\<rparr>"

text \<open>Lines 168 to 171: the position of the mouse on the page.\<close>

definition onPageMouseMove :: "real \<Rightarrow> real \<Rightarrow> Client \<Rightarrow> Client" where
  "onPageMouseMove pageX pageY s = s\<lparr>mouseX := pageX, mouseY := pageY\<rparr>"

text \<open>\<open>handleLockChangeEvent\<close>: \<open>locked\<close> says whether the pointer lock element is the
  overlay canvas. The listener \<open>handleMouseMoveEvent\<close> is registered exactly while
  \<open>pointerLocked\<close> holds.\<close>

definition handleLockChangeEvent :: "bool \<Rightarrow> Client \<Rightarrow> Client" where
  "handleLockChangeEvent locked s =
    (if locked then s\<lparr>pointerLocked := True\<rparr> else s\<lparr>pointerLocked := False\<rparr>)"

text \<open>The local constant \<open>sensitivity\<close> of \<open>handleMouseMoveEvent\<close> (line 273).\<close>

definition mouseSensitivity :: "Client \<Rightarrow> real" where
  "mouseSensitivity s = (if zoom s then 0.0001 else 0.001)"

definition handleMouseMoveEvent :: "Env \<Rightarrow> real \<Rightarrow> real \<Rightarrow> Client \<Rightarrow> Client" where
  "handleMouseMoveEvent E movementX movementY s =
    (let sensitivity = mouseSensitivity s;
         p1 = (player s)\<lparr>yaw := normalizeRadians E (yaw (player s) + sensitivity * movementX)\<rparr>;
         p2 = p1\<lparr>pitch := normalizeRadians E (pitch p1 + sensitivity * movementY)\<rparr>
     in s\<lparr>player := p2\<rparr>)"

definition onDocumentMouseMove :: "Env \<Rightarrow> real \<Rightarrow> real \<Rightarrow> Client \<Rightarrow> Client" where
  "onDocumentMouseMove E movementX movementY s =
    (if pointerLocked s then handleMouseMoveEvent E movementX movementY s else s)"

section \<open>The mobile bridge\<close>

datatype Message =
    ENABLE_POINTER_LOCK bool
  | JOYSTICK_MOVE real real
  | JOYSTICK_END
  | CAMERA_MOVE real real
  | SHOOT_MESSAGE
  | JUMP_MESSAGE
  | OTHER_MESSAGE

text \<open>\<open>window.keys[k].down = b\<close>.\<close>

definition setDown :: "nat \<Rightarrow> bool \<Rightarrow> Keys \<Rightarrow> Keys" where
  "setDown k b ks = ks(k := (ks k)\<lparr>down := b\<rparr>)"

definition handleJoystickMovement :: "Client \<Rightarrow> Client" where
  "handleJoystickMovement s =
    (if \<not> joystickActive s \<or> \<not> window_player s then s
     else (let moveX = cos (joystickAngle s) * joystickForce s;
               moveY = sin (joystickAngle s) * joystickForce s
           in if window_keys s
              then (let k0 = setDown KEY_D False (setDown KEY_A False
                               (setDown KEY_S False (setDown KEY_W False (keys s))));
                        k1 = (if moveY < - 0.3 then setDown KEY_W True k0 else k0);
                        k2 = (if moveY > 0.3 then setDown KEY_S True k1 else k1);
                        k3 = (if moveX < - 0.3 then setDown KEY_A True k2 else k2);
                        k4 = (if moveX > 0.3 then setDown KEY_D True k3 else k3)
                    in s\<lparr>keys := k4\<rparr>)
              else s))"

definition handleCameraMove :: "real \<Rightarrow> real \<Rightarrow> Client \<Rightarrow> Client" where
  "handleCameraMove deltaX deltaY s =
    (if \<not> window_player s then s
     else (let sensitivity = 0.002;
               p1 = (player s)\<lparr>yaw := yaw (player s) + sensitivity * deltaX\<rparr>;
               p2 = p1\<lparr>pitch := pitch p1 + sensitivity * deltaY\<rparr>;
               maxPitch = pi / 2 - 0.1;
               p3 = p2\<lparr>pitch := max (- maxPitch) (min maxPitch (pitch p2))\<rparr>
           in s\<lparr>player := p3\<rparr>))"

definition handleShoot :: "Env \<Rightarrow> real \<Rightarrow> real \<Rightarrow> Client \<Rightarrow> Client" where
  "handleShoot E r1 r2 s = (if window_shoot s then shoot E r1 r2 s else s)"

definition handleJump :: "Client \<Rightarrow> Client" where
  "handleJump s =
    (if window_keys s
     then s\<lparr>keys := (keys s)(KEY_SPACE := (keys s KEY_SPACE)\<lparr>downCount := 1\<rparr>)\<rparr>
     else s)"

text \<open>The message listener of the bridge (lines 15 to 51); \<open>r1\<close> and \<open>r2\<close> are the random
  numbers a shot draws.\<close>

fun onMessage :: "Env \<Rightarrow> Message \<Rightarrow> real \<Rightarrow> real \<Rightarrow> Client \<Rightarrow> Client" where
  "onMessage E (ENABLE_POINTER_LOCK mobile) r1 r2 s = s\<lparr>isMobile := mobile\<rparr>"
| "onMessage E (JOYSTICK_MOVE angle force) r1 r2 s =
     handleJoystickMovement
       (s\<lparr>joystickActive := True, joystickAngle := angle, joystickForce := force\<rparr>)"
| "onMessage E JOYSTICK_END r1 r2 s = s\<lparr>joystickActive := False, joystickForce := 0\<rparr>"
| "onMessage E (CAMERA_MOVE deltaX deltaY) r1 r2 s = handleCameraMove deltaX deltaY s"
| "onMessage E SHOOT_MESSAGE r1 r2 s = handleShoot E r1 r2 s"
| "onMessage E JUMP_MESSAGE r1 r2 s = handleJump s"
| "onMessage E OTHER_MESSAGE r1 r2 s = s"

section \<open>Buffer sets and the frame\<close>

text \<open>The class \<open>BufferSet\<close> and the helpers \<open>renderEntities\<close>, \<open>addBlueCircleQuads\<close> and
  \<open>resetGl\<close> are not among the sources; what they do to the contents of a buffer set and
  to the canvas follows the spec's description of the buffer manager.\<close>

text \<open>Modelled from the spec: \<open>BufferSet.resetBuffers()\<close> is missing; resetting the dynamic
  set clears it fully.\<close>

definition resetBuffers :: "BufferSet \<Rightarrow> BufferSet" where
  "resetBuffers b = b\<lparr>quads := []\<rparr>"

text \<open>Modelled from the spec: \<open>renderEntities(entities)\<close> is missing; it appends each
  entity of the list to the dynamic set, in order.\<close>

definition renderEntities :: "GameEntity list \<Rightarrow> BufferSet \<Rightarrow> BufferSet" where
  "renderEntities es b = b\<lparr>quads := quads b @ map EntityGeom es\<rparr>"

text \<open>Modelled from the spec: \<open>addBlueCircleQuads()\<close> is missing; it appends the translucent
  circular boundary wall to the dynamic set.\<close>

definition addBlueCircleQuads :: "BufferSet \<Rightarrow> BufferSet" where
  "addBlueCircleQuads b = b\<lparr>quads := quads b @ [BlueCircle]\<rparr>"

text \<open>Modelled from the spec: \<open>BufferSet.updateBuffers(gl)\<close> is missing; it uploads the
  set, replacing what was uploaded before.\<close>

definition updateBuffers :: "BufferSet \<Rightarrow> BufferSet" where
  "updateBuffers b = b\<lparr>uploaded := quads b\<rparr>"

text \<open>Modelled from the spec: \<open>BufferSet.render(gl, programInfo, texture)\<close> is missing; it
  issues the draw calls for what was uploaded, after what is already on the canvas.\<close>

definition drawBufferSet :: "BufferSet \<Rightarrow> geom list \<Rightarrow> geom list" where
  "drawBufferSet b canvas = canvas @ uploaded b"

text \<open>Modelled from the spec: \<open>resetGl(gl)\<close> is missing; it clears the canvas for the new
  frame.\<close>

definition resetGl :: "geom list \<Rightarrow> geom list" where
  "resetGl canvas = []"

datatype error = TypeError

text \<open>\<open>render(now)\<close>, lines 207 to 240. A method call on a buffer set that is still
  null throws; the result then carries the state at the throw. The HUD and the request
  for the next frame are outside the model.\<close>

definition render :: "Env \<Rightarrow> real \<Rightarrow> Client \<Rightarrow> (error \<times> Client) + Client" where
  "render E now0 s0 =
    (let now = now0 * 0.001;
         deltaTime = now - then_time s0;
         s1 = s0\<lparr>then_time := now\<rparr>;
         s2 = handleKeys E deltaTime s1
     in case gameState s2 of
          None \<Rightarrow> Inr s2
        | Some r \<Rightarrow>
           (let g = snapshots s2 r
            in if gameId g \<noteq> LOBBY_ID E
               then (case dynamicBuffers s2 of
                       None \<Rightarrow> Inl (TypeError, s2)
                     | Some d0 \<Rightarrow>
                        (let d1 = resetBuffers d0;
                             d2 = (case entities g of
                                     None \<Rightarrow> d1
                                   | Some es \<Rightarrow> renderEntities es d1);
                             d3 = renderEntities (localEntities s2) d2;
                             d4 = (if isStarted E g then addBlueCircleQuads d3 else d3);
                             d5 = updateBuffers d4;
                             s3 = s2\<lparr>dynamicBuffers := Some d5,
                                     canvas3d := resetGl (canvas3d s2)\<rparr>
                         in case staticBuffers s3 of
                              None \<Rightarrow> Inl (TypeError, s3)
                            | Some st \<Rightarrow>
                               Inr (s3\<lparr>canvas3d :=
                                      drawBufferSet d5 (drawBufferSet st (canvas3d s3))\<rparr>)))
               else Inr s2))"

text \<open>What a frame puts into the dynamic set: the geometry of the snapshot's entities in
  their order, then that of the local entities, then the circle wall if the match has
  started.\<close>

definition frameDynamic :: "Env \<Rightarrow> ServerGameState \<Rightarrow> GameEntity list \<Rightarrow> geom list" where
  "frameDynamic E g locals =
    map EntityGeom (case entities g of None \<Rightarrow> [] | Some es \<Rightarrow> es)
    @ map EntityGeom locals
    @ (if isStarted E g then [BlueCircle] else [])"

section \<open>Events\<close>

text \<open>The callbacks of client.js and of the bridge that the model covers, as one event
  type; the click handler of the overlay (HUD buttons, pointer lock request, page reload)
  and the resize handler are not part of it. A frame that throws keeps the state it had
  at the throw, as the module variables do.\<close>

datatype Event =
    Update "nat option"
  | KeyDown string real real
  | MouseDown int
  | MouseUp int
  | ToggleZoom
  | PageMouseMove real real
  | LockChange bool
  | DocumentMouseMove real real
  | Bridge Message real real
  | Frame real

fun handle :: "Env \<Rightarrow> Event \<Rightarrow> Client \<Rightarrow> Client" where
  "handle E (Update n) s = onUpdate n s"
| "handle E (KeyDown key r1 r2) s = onKeyDown E key r1 r2 s"
| "handle E (MouseDown b) s = onMouseDown b s"
| "handle E (MouseUp b) s = onMouseUp b s"
| "handle E ToggleZoom s = toggleZoom s"
| "handle E (PageMouseMove px py) s = onPageMouseMove px py s"
| "handle E (LockChange l) s = handleLockChangeEvent l s"
| "handle E (DocumentMouseMove mx my) s = onDocumentMouseMove E mx my s"
| "handle E (Bridge m r1 r2) s = onMessage E m r1 r2 s"
| "handle E (Frame now) s =
     (case render E now s of Inl (e, s') \<Rightarrow> s' | Inr s' \<Rightarrow> s')"

fun run :: "Env \<Rightarrow> Event list \<Rightarrow> Client \<Rightarrow> Client" where
  "run E [] s = s"
| "run E (ev # evs) s = run E evs (handle E ev s)"

section \<open>Concrete instances\<close>

text \<open>The module variables once client.js and the bridge have loaded (lines 7 to 41 of
  client.js, lines 9 to 12 of the bridge), with every key released; \<open>n\<close> is the player
  name read from local storage. Line 7 declares \<open>player\<close> with a top-level \<open>const\<close>, which
  creates no property of \<open>window\<close>, and nothing assigns \<open>window.player\<close>: it is undefined.
  \<open>shoot\<close> is a top-level function declaration and so a property of \<open>window\<close>; the key
  table of keys.js is taken to be one as well.\<close>

definition initialClient :: "string \<Rightarrow> Client" where
  "initialClient n =
    \<lparr>player = \<lparr>e_type = PLAYER, e_x = 0, e_y = 200, e_z = 0, e_dx = 0, e_dy = 0, e_dz = 0,
               p_name = n, pitch = 0.1, yaw = 0.1, actions = []\<rparr>,
     localEntities = [], staticBuffers = None, dynamicBuffers = None,
     pointerLocked = False, mapOpen = False, mouseX = 0, mouseY = 0,
     gameState = None,
     snapshots = (\<lambda>r. \<lparr>gameId = 0, seed = 0, started = False, aliveCount = 0,
                       entities = None\<rparr>),
     gameMap = None, zoom = False, zoomLevel = 0, then_time = 0,
     keys = (\<lambda>k. \<lparr>down = False, downCount = 0\<rparr>),
     tempVec = (0, 0, 0),
     isMobile = False, joystickAngle = 0, joystickForce = 0, joystickActive = False,
     window_player = False, window_keys = True, window_shoot = True,
     canvas3d = []\<rparr>"

text \<open>An instance of the parameters, to evaluate the model at concrete inputs. The
  numbers are examples (the repository's constants file is not among the sources); the
  rotations are those of a vector library about the axes through \<open>b\<close>; a match is
  started when the snapshot's flag says so, and the player counts as alive while the
  alive count is positive.\<close>

definition rotX :: "vec3 \<Rightarrow> vec3 \<Rightarrow> real \<Rightarrow> vec3" where
  "rotX a b rad =
    (let p0 = v0 a - v0 b; p1 = v1 a - v1 b; p2 = v2 a - v2 b
     in (p0 + v0 b, p1 * cos rad - p2 * sin rad + v1 b, p1 * sin rad + p2 * cos rad + v2 b))"

definition rotY :: "vec3 \<Rightarrow> vec3 \<Rightarrow> real \<Rightarrow> vec3" where
  "rotY a b rad =
    (let p0 = v0 a - v0 b; p1 = v1 a - v1 b; p2 = v2 a - v2 b
     in (p2 * sin rad + p0 * cos rad + v0 b, p1 + v1 b, p2 * cos rad - p0 * sin rad + v2 b))"

definition wrapOnce :: "real \<Rightarrow> real" where
  "wrapOnce r = (if r > pi then r - 2 * pi else if r < - pi then r + 2 * pi else r)"

definition exampleEnv :: Env where
  "exampleEnv =
    \<lparr>KEY_UP = 38, KEY_DOWN = 40, KEY_LEFT = 37, KEY_RIGHT = 39, KEY_Z = 90, KEY_Q = 81,
     KEY_M = 77, KEY_ESCAPE = 27,
     RUN_SPEED = 10, GRAVITY = 30, PLAYER_HALF_HEIGHT = 1, JUMP_POWER = 12, LOBBY_ID = 0,
     forward = (0, 0, -1), origin = (0, 0, 0), rotateX = rotX, rotateY = rotY,
     normalizeRadians = wrapOnce, updateKeys = updateKeys_spec,
     isStarted = started, isCurrentPlayerAlive = (\<lambda>g. 0 < aliveCount g)\<rparr>"

text \<open>A flat map at height zero.\<close>

definition flatMap :: GameMap where
  "flatMap = \<lparr>getY = (\<lambda>x z. 0)\<rparr>"

text \<open>A client in a match on the flat map, with the W key held and nothing else.\<close>

definition walkingClient :: Client where
  "walkingClient =
    (initialClient ''a'')\<lparr>gameMap := Some flatMap,
       keys := setDown KEY_W True (keys (initialClient ''a''))\<rparr>"

text \<open>A client in a match on the flat map, looking along the forward axis, that holds
  W, S and D at once and still has horizontal velocity from before.\<close>

definition strafingClient :: Client where
  "strafingClient =
    (initialClient ''a'')\<lparr>gameMap := Some flatMap,
       player := (player (initialClient ''a''))\<lparr>yaw := 0, e_dx := 3, e_dz := 4\<rparr>,
       keys := setDown KEY_D True (setDown KEY_S True (setDown KEY_W True
                 (keys (initialClient ''a''))))\<rparr>"

text \<open>A client in a match on the flat map whose feet are under the ground and whose
  space key went down since the last frame.\<close>

definition landingClient :: Client where
  "landingClient =
    (initialClient ''a'')\<lparr>gameMap := Some flatMap,
       player := (player (initialClient ''a''))\<lparr>e_y := 1 / 2\<rparr>,
       keys := setDown KEY_SPACE True (keys (initialClient ''a''))\<rparr>"

text \<open>A client in a started match (game id 7) with two remote entities, one local entity,
  static world geometry and stale contents in the dynamic set.\<close>

definition matchClient :: Client where
  "matchClient =
    (initialClient ''a'')\<lparr>
       gameState := Some 5,
       snapshots := (snapshots (initialClient ''a''))
         (5 := \<lparr>gameId = 7, seed = 42, started = True, aliveCount = 2,
                entities = Some [\<lparr>e_type = PLAYER, e_x = 1, e_y = 2, e_z = 3,
                                   e_dx = 0, e_dy = 0, e_dz = 0\<rparr>,
                                 \<lparr>e_type = SHOOT, e_x = 4, e_y = 5, e_z = 6,
                                   e_dx = 0, e_dy = 0, e_dz = 1\<rparr>]\<rparr>),
       localEntities := [\<lparr>e_type = JOIN, e_x = 0, e_y = 0, e_z = 0,
                          e_dx = 0, e_dy = 0, e_dz = 0\<rparr>],
       staticBuffers := Some \<lparr>usage = STATIC_DRAW, quads = [WorldGeom 0, WorldGeom 1],
                               uploaded = [WorldGeom 0, WorldGeom 1]\<rparr>,
       dynamicBuffers := Some \<lparr>usage = DYNAMIC_DRAW, quads = [BlueCircle, WorldGeom 9],
                                uploaded = [BlueCircle]\<rparr>\<rparr>"

section \<open>Facts about the stages of handleKeys\<close>

lemmas key_codes =
  KEY_W_def KEY_S_def KEY_A_def KEY_D_def KEY_SPACE_def

lemma setVelocity_dy:
  "e_dy (setVelocity E ks tv p) = e_dy p - 0.02 * real (heldGroups E ks)"
  by (simp add: setVelocity_def heldGroups_def forwardHeld_def backwardHeld_def
      leftHeld_def rightHeld_def Let_def)

lemma setVelocity_dx_dz:
  "(e_dx (setVelocity E ks tv p), e_dz (setVelocity E ks tv p)) =
    (if rightHeld E ks then (RUN_SPEED E * v2 tv, - RUN_SPEED E * v0 tv)
     else if leftHeld E ks then (- RUN_SPEED E * v2 tv, RUN_SPEED E * v0 tv)
     else if backwardHeld E ks then (- RUN_SPEED E * v0 tv, - RUN_SPEED E * v2 tv)
     else if forwardHeld E ks then (RUN_SPEED E * v0 tv, RUN_SPEED E * v2 tv)
     else (0, 0))"
  by (simp add: setVelocity_def forwardHeld_def backwardHeld_def
      leftHeld_def rightHeld_def Let_def)

lemma setVelocity_frame:
  "e_x (setVelocity E ks tv p) = e_x p" "e_y (setVelocity E ks tv p) = e_y p"
  "e_z (setVelocity E ks tv p) = e_z p" "pitch (setVelocity E ks tv p) = pitch p"
  "yaw (setVelocity E ks tv p) = yaw p" "actions (setVelocity E ks tv p) = actions p"
  by (simp_all add: setVelocity_def Let_def)

lemma integrate_fields:
  "e_dx (integrate E dt p) = e_dx p" "e_dz (integrate E dt p) = e_dz p"
  "e_dy (integrate E dt p) = e_dy p - dt * GRAVITY E"
  "e_x (integrate E dt p) = e_x p + dt * e_dx p"
  "e_z (integrate E dt p) = e_z p + dt * e_dz p"
  "e_y (integrate E dt p) = e_y p + dt * (e_dy p - dt * GRAVITY E)"
  "pitch (integrate E dt p) = pitch p" "yaw (integrate E dt p) = yaw p"
  "actions (integrate E dt p) = actions p"
  by (simp_all add: integrate_def Let_def)

lemma groundClamp_fields:
  "e_dx (groundClamp E gm ks p) = e_dx p" "e_dz (groundClamp E gm ks p) = e_dz p"
  "e_x (groundClamp E gm ks p) = e_x p" "e_z (groundClamp E gm ks p) = e_z p"
  "pitch (groundClamp E gm ks p) = pitch p" "yaw (groundClamp E gm ks p) = yaw p"
  "actions (groundClamp E gm ks p) = actions p"
  by (simp_all add: groundClamp_def Let_def)

lemma groundClamp_below:
  "e_y p < getY gm (e_x p) (e_z p) + PLAYER_HALF_HEIGHT E \<Longrightarrow>
     e_y (groundClamp E gm ks p) = getY gm (e_x p) (e_z p) + PLAYER_HALF_HEIGHT E
     \<and> e_dy (groundClamp E gm ks p) = (if downCount (ks KEY_SPACE) = 1 then JUMP_POWER E else 0)"
  by (simp add: groundClamp_def Let_def)

lemma handleKeys_player:
  "gameMap s = Some gm \<Longrightarrow>
    player (handleKeys E dt s) = groundClamp E gm (updateKeys E (keys s)) (beforeClamp E dt s)"
  by (simp add: handleKeys_def beforeClamp_def Let_def)

lemma handleKeys_no_map: "gameMap s = None \<Longrightarrow> handleKeys E dt s = s"
  by (simp add: handleKeys_def)

lemma handleKeys_frame:
  "gameState (handleKeys E dt s) = gameState s"
  "snapshots (handleKeys E dt s) = snapshots s"
  "dynamicBuffers (handleKeys E dt s) = dynamicBuffers s"
  "staticBuffers (handleKeys E dt s) = staticBuffers s"
  "localEntities (handleKeys E dt s) = localEntities s"
  "zoomLevel (handleKeys E dt s) = zoomLevel s"
  "zoom (handleKeys E dt s) = zoom s"
  by (simp_all add: handleKeys_def Let_def split: option.splits)

section \<open>Facts about the key bookkeeping and the jump\<close>

lemma updateKeys_spec_down: "down (updateKeys_spec ks k) = down (ks k)"
  by (simp add: updateKeys_spec_def)

lemma countsHeldFrames_example: "countsHeldFrames exampleEnv"
  by (simp add: countsHeldFrames_def exampleEnv_def updateKeys_spec_def)

lemma handleKeys_space:
  assumes "countsHeldFrames E" "down (keys s KEY_SPACE)"
  shows "down (keys (handleKeys E dt s) KEY_SPACE)"
    and "gameMap s \<noteq> None \<Longrightarrow>
           downCount (keys (handleKeys E dt s) KEY_SPACE) = downCount (keys s KEY_SPACE) + 1"
    and "downCount (keys s KEY_SPACE) \<le> downCount (keys (handleKeys E dt s) KEY_SPACE)"
  using assms
  by (auto simp: countsHeldFrames_def handleKeys_def Let_def split: option.splits)

lemma jumpImpulse_count:
  "countsHeldFrames E \<Longrightarrow> down (keys s KEY_SPACE) \<Longrightarrow> jumpImpulse E dt s \<Longrightarrow>
     downCount (keys s KEY_SPACE) = 0"
  by (auto simp: jumpImpulse_def countsHeldFrames_def Let_def split: option.splits)

lemma jumpImpulse_map: "jumpImpulse E dt s \<Longrightarrow> gameMap s \<noteq> None"
  by (cases "gameMap s") (simp_all add: jumpImpulse_def)

lemma no_impulse_after_first:
  "countsHeldFrames E \<Longrightarrow> down (keys s KEY_SPACE) \<Longrightarrow> 0 < downCount (keys s KEY_SPACE) \<Longrightarrow>
     filter (\<lambda>b. b) (impulses E dts s) = []"
proof (induction dts arbitrary: s)
  case Nil
  then show ?case by simp
next
  case (Cons dt dts)
  have no: "\<not> jumpImpulse E dt s"
    using Cons.prems jumpImpulse_count by fastforce
  have "0 < downCount (keys (handleKeys E dt s) KEY_SPACE)"
    using handleKeys_space(3) [OF Cons.prems(1,2), of dt] Cons.prems(3) by linarith
  with Cons.IH [of "handleKeys E dt s"] Cons.prems handleKeys_space(1) no
  show ?case by simp
qed

lemma one_impulse_while_held:
  "countsHeldFrames E \<Longrightarrow> down (keys s KEY_SPACE) \<Longrightarrow>
     length (filter (\<lambda>b. b) (impulses E dts s)) \<le> 1"
proof (induction dts arbitrary: s)
  case Nil
  then show ?case by simp
next
  case (Cons dt dts)
  show ?case
  proof (cases "jumpImpulse E dt s")
    case True
    then have "gameMap s \<noteq> None" by (rule jumpImpulse_map)
    with handleKeys_space(2) [OF Cons.prems, of dt]
    have "0 < downCount (keys (handleKeys E dt s) KEY_SPACE)" by simp
    with no_impulse_after_first [OF Cons.prems(1) handleKeys_space(1) [OF Cons.prems]]
    have "filter (\<lambda>b. b) (impulses E dts (handleKeys E dt s)) = []" by simp
    with True show ?thesis by simp
  next
    case False
    with Cons.IH [OF Cons.prems(1) handleKeys_space(1) [OF Cons.prems], of dt]
    show ?thesis by simp
  qed
qed

section \<open>Facts about shots and the zoom level\<close>






lemma shoot_recoil_no_snapshot:
  "gameState s = None \<Longrightarrow>
     gameState (shoot E r1 r2 s) = None
     \<and> pitch (player (shoot E r1 r2 s)) = pitch (player s) - 0.02 * r1
     \<and> yaw (player (shoot E r1 r2 s)) = yaw (player s) + 0.02 * r2 - 0.01"
  by (simp add: shoot_def createClientEvent_def Let_def)

lemma repeated_shots:
  "gameState s = None \<Longrightarrow>
     gameState (run E (replicate k (KeyDown ''f'' a b)) s) = None
     \<and> pitch (player (run E (replicate k (KeyDown ''f'' a b)) s))
         = pitch (player s) - real k * (0.02 * a)"
proof (induction k arbitrary: s)
  case 0
  then show ?case by simp
next
  case (Suc k)
  from shoot_recoil_no_snapshot [OF Suc.prems, of E a b]
  have g: "gameState (shoot E a b s) = None"
    and p: "pitch (player (shoot E a b s)) = pitch (player s) - 0.02 * a"
    by simp_all
  from Suc.IH [OF g]
  have g': "gameState (run E (replicate k (KeyDown ''f'' a b)) (shoot E a b s)) = None"
    and p': "pitch (player (run E (replicate k (KeyDown ''f'' a b)) (shoot E a b s)))
         = pitch (player (shoot E a b s)) - real k * (0.02 * a)"
    by simp_all
  have r: "run E (replicate (Suc k) (KeyDown ''f'' a b)) s
      = run E (replicate k (KeyDown ''f'' a b)) (shoot E a b s)"
    by (simp add: onKeyDown_def)
  show ?case
    unfolding r by (simp add: g' p' p) (simp add: algebra_simps)
qed

section \<open>Facts about the concrete instances\<close>

lemma example_consts:
  "updateKeys exampleEnv = updateKeys_spec" "PLAYER_HALF_HEIGHT exampleEnv = 1"
  "JUMP_POWER exampleEnv = 12" "GRAVITY exampleEnv = 30" "RUN_SPEED exampleEnv = 10"
  "getY flatMap x z = 0"
  by (simp_all add: exampleEnv_def flatMap_def)

lemma initial_player:
  "gameState (initialClient n) = None" "actions (player (initialClient n)) = []"
  "e_x (player (initialClient n)) = 0" "e_y (player (initialClient n)) = 200"
  "e_z (player (initialClient n)) = 0" "pitch (player (initialClient n)) = 1/10"
  "yaw (player (initialClient n)) = 1/10" "zoomLevel (initialClient n) = 0"
  by (simp_all add: initialClient_def)

lemma initial_shot_direction:
  "rotateY exampleEnv
     (rotateX exampleEnv (forward exampleEnv) (origin exampleEnv) (1/10))
     (origin exampleEnv) (1/10)
   = (- (cos (1/10) * sin (1/10)), sin (1/10), - (cos (1/10) * cos (1/10)))"
  by (simp add: exampleEnv_def rotX_def rotY_def v0_def v1_def v2_def)

lemma walking_held:
  "forwardHeld exampleEnv (updateKeys_spec (keys walkingClient))"
  "\<not> backwardHeld exampleEnv (updateKeys_spec (keys walkingClient))"
  "\<not> leftHeld exampleEnv (updateKeys_spec (keys walkingClient))"
  "\<not> rightHeld exampleEnv (updateKeys_spec (keys walkingClient))"
  by (simp_all add: forwardHeld_def backwardHeld_def leftHeld_def rightHeld_def
      updateKeys_spec_down walkingClient_def initialClient_def setDown_def key_codes
      exampleEnv_def)

lemma walking_facts:
  "gameMap walkingClient = Some flatMap" "e_dy (player walkingClient) = 0"
  "heldGroups exampleEnv (updateKeys_spec (keys walkingClient)) = 1"
  "GRAVITY exampleEnv = 30" "updateKeys exampleEnv = updateKeys_spec"
  by (simp_all add: heldGroups_def walking_held)
     (simp_all add: walkingClient_def initialClient_def exampleEnv_def)

lemma landing_held:
  "\<not> forwardHeld exampleEnv (updateKeys_spec (keys landingClient))"
  "\<not> backwardHeld exampleEnv (updateKeys_spec (keys landingClient))"
  "\<not> leftHeld exampleEnv (updateKeys_spec (keys landingClient))"
  "\<not> rightHeld exampleEnv (updateKeys_spec (keys landingClient))"
  by (simp_all add: forwardHeld_def backwardHeld_def leftHeld_def rightHeld_def
      updateKeys_spec_down landingClient_def initialClient_def setDown_def key_codes
      exampleEnv_def)

lemma landing_facts:
  "gameMap landingClient = Some flatMap"
  "down (keys landingClient KEY_SPACE)"
  "downCount (updateKeys_spec (keys landingClient) KEY_SPACE) = 1"
  "e_x (player landingClient) = 0" "e_y (player landingClient) = 1/2"
  "e_z (player landingClient) = 0" "e_dy (player landingClient) = 0"
  by (simp_all add: landingClient_def initialClient_def setDown_def updateKeys_spec_def)

lemma landing_beforeClamp:
  "e_x (beforeClamp exampleEnv (1/10) landingClient) = 0"
  "e_y (beforeClamp exampleEnv (1/10) landingClient) = 1/5"
  "e_z (beforeClamp exampleEnv (1/10) landingClient) = 0"
  using setVelocity_dx_dz [of exampleEnv "updateKeys_spec (keys landingClient)"
      "rotateY exampleEnv (forward exampleEnv) (origin exampleEnv) (yaw (player landingClient))"
      "player landingClient"]
  by (simp_all add: beforeClamp_def integrate_fields setVelocity_frame setVelocity_dy
      heldGroups_def example_consts landing_held landing_facts)

lemma strafing_facts:
  "gameMap strafingClient = Some flatMap"
  "rightHeld exampleEnv (updateKeys_spec (keys strafingClient))"
  "forwardHeld exampleEnv (updateKeys_spec (keys strafingClient))"
  "backwardHeld exampleEnv (updateKeys_spec (keys strafingClient))"
  "rotateY exampleEnv (forward exampleEnv) (origin exampleEnv) (yaw (player strafingClient))
     = (0, 0, -1)"
  "RUN_SPEED exampleEnv = 10" "updateKeys exampleEnv = updateKeys_spec"
  by (simp_all add: forwardHeld_def backwardHeld_def rightHeld_def updateKeys_spec_down
      strafingClient_def initialClient_def setDown_def key_codes exampleEnv_def rotY_def
      v0_def v1_def v2_def)

lemma match_facts:
  "gameState matchClient = Some 5"
  "gameId (snapshots matchClient 5) \<noteq> LOBBY_ID exampleEnv"
  "dynamicBuffers matchClient = Some \<lparr>usage = DYNAMIC_DRAW, quads = [BlueCircle, WorldGeom 9],
                                uploaded = [BlueCircle]\<rparr>"
  "staticBuffers matchClient = Some \<lparr>usage = STATIC_DRAW, quads = [WorldGeom 0, WorldGeom 1],
                               uploaded = [WorldGeom 0, WorldGeom 1]\<rparr>"
  "frameDynamic exampleEnv (snapshots matchClient 5) (localEntities matchClient) =
     [EntityGeom \<lparr>e_type = PLAYER, e_x = 1, e_y = 2, e_z = 3, e_dx = 0, e_dy = 0, e_dz = 0\<rparr>,
      EntityGeom \<lparr>e_type = SHOOT, e_x = 4, e_y = 5, e_z = 6, e_dx = 0, e_dy = 0, e_dz = 1\<rparr>,
      EntityGeom \<lparr>e_type = JOIN, e_x = 0, e_y = 0, e_z = 0, e_dx = 0, e_dy = 0, e_dz = 0\<rparr>,
      BlueCircle]"
  by (simp_all add: matchClient_def initialClient_def exampleEnv_def frameDynamic_def)

section \<open>Facts about the bridge on the client as loaded\<close>







lemma joystick_move_without_player:
  "\<not> window_player s \<Longrightarrow>
     keys (onMessage E (JOYSTICK_MOVE angle force) r1 r2 s) = keys s"
  by (simp add: handleJoystickMovement_def)

lemma joystick_end_keeps_keys: "keys (onMessage E JOYSTICK_END r1 r2 s) = keys s"
  by simp

lemma camera_move_without_player:
  "\<not> window_player s \<Longrightarrow> onMessage E (CAMERA_MOVE deltaX deltaY) r1 r2 s = s"
  by (simp add: handleCameraMove_def)



section \<open>C1: the ground clamp and the jump\<close>

text \<open>C1: in a step with a map, when the integrated position has the feet below the
  ground at the new (x, z), the step ends with y equal to the ground height there plus
  the half height, and with vertical velocity zero, unless the down count of the space
  key is one in this frame, in which case it is the jump power (and that is exactly when
  the impulse is given). While the space key stays down over any number of frames, the
  impulse is given in at most one of them, for any per-frame bookkeeping that leaves the
  down flag alone and counts the frames of a key that is down.\<close>

theorem C1_ground_clamp_and_jump:
  "(gameMap s = Some gm
     \<and> e_y (beforeClamp E dt s) - PLAYER_HALF_HEIGHT E
         < getY gm (e_x (beforeClamp E dt s)) (e_z (beforeClamp E dt s))
    \<longrightarrow> (let q = player (handleKeys E dt s)
         in e_x q = e_x (beforeClamp E dt s) \<and> e_z q = e_z (beforeClamp E dt s)
            \<and> e_y q = getY gm (e_x q) (e_z q) + PLAYER_HALF_HEIGHT E
            \<and> e_dy q = (if downCount (updateKeys E (keys s) KEY_SPACE) = 1
                         then JUMP_POWER E else 0)
            \<and> jumpImpulse E dt s = (downCount (updateKeys E (keys s) KEY_SPACE) = 1)))
   \<and> (countsHeldFrames E \<and> down (keys s KEY_SPACE)
    \<longrightarrow> length (filter (\<lambda>b. b) (impulses E dts s)) \<le> 1)"
proof (intro conjI impI)
  assume a0: "gameMap s = Some gm
     \<and> e_y (beforeClamp E dt s) - PLAYER_HALF_HEIGHT E
         < getY gm (e_x (beforeClamp E dt s)) (e_z (beforeClamp E dt s))"
  then have a: "gameMap s = Some gm
     \<and> e_y (beforeClamp E dt s)
         < getY gm (e_x (beforeClamp E dt s)) (e_z (beforeClamp E dt s)) + PLAYER_HALF_HEIGHT E"
    by (simp add: less_diff_eq)
  then have p: "player (handleKeys E dt s)
      = groundClamp E gm (updateKeys E (keys s)) (beforeClamp E dt s)"
    by (simp add: handleKeys_player)
  from a groundClamp_below [of "beforeClamp E dt s" gm E "updateKeys E (keys s)"]
  show "let q = player (handleKeys E dt s)
         in e_x q = e_x (beforeClamp E dt s) \<and> e_z q = e_z (beforeClamp E dt s)
            \<and> e_y q = getY gm (e_x q) (e_z q) + PLAYER_HALF_HEIGHT E
            \<and> e_dy q = (if downCount (updateKeys E (keys s) KEY_SPACE) = 1
                         then JUMP_POWER E else 0)
            \<and> jumpImpulse E dt s = (downCount (updateKeys E (keys s) KEY_SPACE) = 1)"
    by (simp add: p Let_def groundClamp_fields jumpImpulse_def)
next
  assume "countsHeldFrames E \<and> down (keys s KEY_SPACE)"
  then show "length (filter (\<lambda>b. b) (impulses E dts s)) \<le> 1"
    using one_impulse_while_held [of E s dts] by blast
qed

text \<open>C1, witness: the landing client jumps in its first frame and the theorem bounds
  the impulses of three frames.\<close>

theorem C1_witness:
  "gameMap landingClient = Some flatMap
   \<and> countsHeldFrames exampleEnv \<and> down (keys landingClient KEY_SPACE)
   \<and> e_y (beforeClamp exampleEnv (1/10) landingClient) = 1/5
   \<and> e_y (player (handleKeys exampleEnv (1/10) landingClient)) = 1
   \<and> e_dy (player (handleKeys exampleEnv (1/10) landingClient)) = 12
   \<and> length (filter (\<lambda>b. b) (impulses exampleEnv [1/10, 1/10, 1/10] landingClient)) \<le> 1"
proof -
  note t = C1_ground_clamp_and_jump
    [of landingClient flatMap exampleEnv "1/10" "[1/10, 1/10, 1/10]"]
  have a: "gameMap landingClient = Some flatMap
     \<and> e_y (beforeClamp exampleEnv (1/10) landingClient) - PLAYER_HALF_HEIGHT exampleEnv
         < getY flatMap (e_x (beforeClamp exampleEnv (1/10) landingClient))
             (e_z (beforeClamp exampleEnv (1/10) landingClient))"
    by (simp add: landing_facts landing_beforeClamp example_consts)
  have b: "countsHeldFrames exampleEnv \<and> down (keys landingClient KEY_SPACE)"
    by (simp add: countsHeldFrames_example landing_facts)
  from t a have
    "e_y (player (handleKeys exampleEnv (1/10) landingClient)) = 1
     \<and> e_dy (player (handleKeys exampleEnv (1/10) landingClient)) = 12"
    by (simp add: Let_def example_consts landing_facts)
  moreover from t b
  have "length (filter (\<lambda>b. b) (impulses exampleEnv [1/10, 1/10, 1/10] landingClient)) \<le> 1"
    by blast
  ultimately show ?thesis
    using a b by (simp only: landing_beforeClamp)
qed

section \<open>C2: vertical velocity before the ground clamp\<close>

text \<open>C2, as stated, fails: with the W key held, one step of a tenth of a second takes
  more than the gravity term off the vertical velocity (each held group of movement keys
  takes another 0.02, lines 294, 299, 304 and 309).\<close>

theorem C2_counterexample:
  "e_dy (beforeClamp exampleEnv (1/10) walkingClient)
     \<noteq> e_dy (player walkingClient) - GRAVITY exampleEnv * (1/10)"
  by (simp add: beforeClamp_def integrate_fields setVelocity_dy walking_facts)

text \<open>C2, amended: in a step with a map, the ground clamp receives a player whose
  vertical velocity is the previous one, less 0.02 for each of the four groups of movement
  keys (forward, backward, left, right) that is held, less gravity times the elapsed
  time. With no movement key held, gravity is the only change.\<close>

theorem C2_vertical_velocity_before_clamp:
  "gameMap s = Some gm \<Longrightarrow>
     player (handleKeys E dt s) = groundClamp E gm (updateKeys E (keys s)) (beforeClamp E dt s)
     \<and> e_dy (beforeClamp E dt s)
         = e_dy (player s) - 0.02 * real (heldGroups E (updateKeys E (keys s))) - dt * GRAVITY E"
  by (simp add: handleKeys_player) (simp add: beforeClamp_def integrate_fields setVelocity_dy)

text \<open>C2, witness: the walking client, a step of a tenth of a second.\<close>

theorem C2_witness:
  "gameMap walkingClient = Some flatMap
   \<and> e_dy (beforeClamp exampleEnv (1/10) walkingClient) = - 302 / 100"
proof -
  have h: "gameMap walkingClient = Some flatMap"
    by (rule walking_facts)
  from C2_vertical_velocity_before_clamp [OF h, of exampleEnv "1/10"]
  have "e_dy (beforeClamp exampleEnv (1/10) walkingClient) = - 302 / 100"
    by (simp add: walking_facts)
  with h show ?thesis by simp
qed

section \<open>C3: the update handler\<close>

text \<open>C3: the handler of the update event stores the received reference in \<open>gameState\<close>
  and changes nothing else. The store of snapshot objects is untouched, so no field of
  the snapshot stored before is changed; the player (position, orientation and pending
  actions), the key table and both buffer sets are as they were.\<close>

theorem C3_update_replaces_snapshot_reference:
  "gameState (onUpdate n s) = n
   \<and> snapshots (onUpdate n s) = snapshots s
   \<and> player (onUpdate n s) = player s
   \<and> keys (onUpdate n s) = keys s
   \<and> staticBuffers (onUpdate n s) = staticBuffers s
   \<and> dynamicBuffers (onUpdate n s) = dynamicBuffers s
   \<and> onUpdate n s = s\<lparr>gameState := n\<rparr>
   \<and> handle E (Update n) s = onUpdate n s"
  by (simp add: onUpdate_def)

text \<open>C3, witness: a new reference arrives at the client in a match; the object that
  was stored before is as it was.\<close>

theorem C3_witness:
  "gameState (onUpdate (Some 6) matchClient) = Some 6
   \<and> gameState matchClient = Some 5
   \<and> snapshots (onUpdate (Some 6) matchClient) 5 = snapshots matchClient 5
   \<and> player (onUpdate (Some 6) matchClient) = player matchClient"
  using C3_update_replaces_snapshot_reference [of "Some 6" matchClient exampleEnv]
  by (simp add: match_facts)

section \<open>C4: the order of the dynamic geometry in a frame\<close>

text \<open>C4: in a frame with a snapshot that is not the lobby's (and with both buffer sets
  created), \<open>render\<close> returns normally; whatever the dynamic set held before, it now holds
  the snapshot's entities in order, then the local entities, then the circle wall last
  and only if the match has started; that is what was uploaded, and the canvas shows the
  static set's geometry followed by the dynamic set's, the circle wall after everything
  else.\<close>

theorem C4_frame_rebuilds_dynamic_in_order:
  assumes "gameState s = Some r" and "gameId (snapshots s r) \<noteq> LOBBY_ID E"
    and "dynamicBuffers s = Some d" and "staticBuffers s = Some st"
  shows "\<exists>s' d'. render E now s = Inr s'
     \<and> dynamicBuffers s' = Some d'
     \<and> quads d' = frameDynamic E (snapshots s r) (localEntities s)
     \<and> uploaded d' = quads d'
     \<and> staticBuffers s' = Some st
     \<and> canvas3d s' = uploaded st @ frameDynamic E (snapshots s r) (localEntities s)"
  using assms
  by (simp add: render_def Let_def handleKeys_frame frameDynamic_def updateBuffers_def
      addBlueCircleQuads_def renderEntities_def resetBuffers_def drawBufferSet_def resetGl_def
      split: option.splits)

text \<open>C4, witness: a frame of the client in a started match.\<close>

theorem C4_witness:
  "gameState matchClient = Some 5
   \<and> gameId (snapshots matchClient 5) \<noteq> LOBBY_ID exampleEnv
   \<and> dynamicBuffers matchClient \<noteq> None \<and> staticBuffers matchClient \<noteq> None
   \<and> (case render exampleEnv 16 matchClient of
         Inl e \<Rightarrow> False
       | Inr s' \<Rightarrow> canvas3d s' =
          [WorldGeom 0, WorldGeom 1,
           EntityGeom \<lparr>e_type = PLAYER, e_x = 1, e_y = 2, e_z = 3, e_dx = 0, e_dy = 0, e_dz = 0\<rparr>,
           EntityGeom \<lparr>e_type = SHOOT, e_x = 4, e_y = 5, e_z = 6, e_dx = 0, e_dy = 0, e_dz = 1\<rparr>,
           EntityGeom \<lparr>e_type = JOIN, e_x = 0, e_y = 0, e_z = 0, e_dx = 0, e_dy = 0, e_dz = 0\<rparr>,
           BlueCircle])"
proof -
  from C4_frame_rebuilds_dynamic_in_order [OF match_facts(1-4), of 16]
  obtain s' where "render exampleEnv 16 matchClient = Inr s'"
    and "canvas3d s' = [WorldGeom 0, WorldGeom 1]
            @ frameDynamic exampleEnv (snapshots matchClient 5) (localEntities matchClient)"
    by auto
  then show ?thesis
    by (simp add: match_facts)
qed

section \<open>C6: the joystick\<close>

text \<open>C6 at the input where the code departs from it: a joystick message with angle 0
  and force 1 on the client as loaded records the force but sets none of the keys W, S, A
  and D, because \<open>handleJoystickMovement\<close> returns at its test of \<open>window.player\<close>; no
  movement intent is asserted. The end message that follows sets the force to zero.\<close>

theorem C6_joystick_move_asserts_no_intent:
  "\<not> down (keys (onMessage exampleEnv (JOYSTICK_MOVE 0 1) 0 0 (initialClient ''a'')) KEY_D)
   \<and> \<not> down (keys (onMessage exampleEnv (JOYSTICK_MOVE 0 1) 0 0 (initialClient ''a'')) KEY_A)
   \<and> \<not> down (keys (onMessage exampleEnv (JOYSTICK_MOVE 0 1) 0 0 (initialClient ''a'')) KEY_W)
   \<and> \<not> down (keys (onMessage exampleEnv (JOYSTICK_MOVE 0 1) 0 0 (initialClient ''a'')) KEY_S)
   \<and> joystickForce (onMessage exampleEnv (JOYSTICK_MOVE 0 1) 0 0 (initialClient ''a'')) = 1
   \<and> joystickForce (onMessage exampleEnv JOYSTICK_END 0 0
        (onMessage exampleEnv (JOYSTICK_MOVE 0 1) 0 0 (initialClient ''a''))) = 0"
  by (simp add: handleJoystickMovement_def initialClient_def)

section \<open>C7: horizontal velocity from the held movement keys\<close>

text \<open>C7: in a step with a map, the horizontal velocity at the end of the step does not
  depend on the one before: it is zero when no movement key is held, and otherwise the
  run speed times the forward axis rotated by the yaw, turned into the direction of the
  last group held in the order forward, backward, left, right. The previous groups are
  overwritten, so of several held directions only the last one counts.\<close>

theorem C7_horizontal_velocity:
  "gameMap s = Some gm \<Longrightarrow>
     (let ks = updateKeys E (keys s);
          tv = rotateY E (forward E) (origin E) (yaw (player s));
          q = player (handleKeys E dt s)
      in (e_dx q, e_dz q) =
          (if rightHeld E ks then (RUN_SPEED E * v2 tv, - RUN_SPEED E * v0 tv)
           else if leftHeld E ks then (- RUN_SPEED E * v2 tv, RUN_SPEED E * v0 tv)
           else if backwardHeld E ks then (- RUN_SPEED E * v0 tv, - RUN_SPEED E * v2 tv)
           else if forwardHeld E ks then (RUN_SPEED E * v0 tv, RUN_SPEED E * v2 tv)
           else (0, 0)))"
  unfolding Let_def
  by (simp only: handleKeys_player groundClamp_fields beforeClamp_def integrate_fields
      setVelocity_dx_dz)

text \<open>C7, witness: W, S and D held together give the velocity of D alone.\<close>

theorem C7_witness:
  "gameMap strafingClient = Some flatMap
   \<and> e_dx (player (handleKeys exampleEnv (1/10) strafingClient)) = - 10
   \<and> e_dz (player (handleKeys exampleEnv (1/10) strafingClient)) = 0"
proof -
  have h: "gameMap strafingClient = Some flatMap"
    by (rule strafing_facts)
  from C7_horizontal_velocity [OF h, of exampleEnv "1/10"]
  have "(e_dx (player (handleKeys exampleEnv (1/10) strafingClient)),
         e_dz (player (handleKeys exampleEnv (1/10) strafingClient))) = (- 10, 0)"
    by (simp add: strafing_facts Let_def v0_def v2_def)
  with h show ?thesis by simp
qed

section \<open>C8: orientation after recoil\<close>

text \<open>C8 at the input where the code departs from it: on the client as loaded, before
  any snapshot, a thousand shots with a random number of one half leave the pitch at
  -9.9, more than a full turn below zero and so outside every range of normalised
  angles: the recoil of \<open>shoot\<close> is never wrapped.\<close>

theorem C8_recoil_leaves_canonical_range:
  "pitch (player (run exampleEnv (replicate 1000 (KeyDown ''f'' (1/2) (1/2)))
        (initialClient ''a''))) = - 99 / 10
   \<and> - 99 / 10 < - (2 * pi)"
proof -
  from repeated_shots [of "initialClient ''a''" exampleEnv 1000 "1/2" "1/2"]
  have "pitch (player (run exampleEnv (replicate 1000 (KeyDown ''f'' (1/2) (1/2)))
        (initialClient ''a''))) = - 99 / 10"
    by (simp add: initial_player)
  moreover have "- 99 / 10 < - (2 * pi)"
    using pi_less_4 by simp
  ultimately show ?thesis by simp
qed

section \<open>C9: zoom level and pointer sensitivity\<close>



section \<open>C10: firing before any snapshot\<close>

text \<open>C10: with no snapshot stored, the f key fires: one SHOOT entity with the player's
  position and the forward axis rotated by pitch and yaw is appended to the pending
  actions, and the recoil is applied to pitch and yaw. A shot is suppressed (the state
  stays as it is) exactly when a snapshot is stored and it does not report the player
  alive.\<close>

theorem C10_fire_without_snapshot:
  "(gameState s = None \<longrightarrow>
      (let dir = rotateY E (rotateX E (forward E) (origin E) (pitch (player s))) (origin E)
                   (yaw (player s));
           s' = onKeyDown E ''f'' r1 r2 s
       in s' = shoot E r1 r2 s
          \<and> actions (player s') = actions (player s) @
               [\<lparr>e_type = SHOOT, e_x = e_x (player s), e_y = e_y (player s),
                 e_z = e_z (player s), e_dx = v0 dir, e_dy = v1 dir, e_dz = v2 dir\<rparr>]
          \<and> pitch (player s') = pitch (player s) - 0.02 * r1
          \<and> yaw (player s') = yaw (player s) + 0.02 * r2 - 0.01))
   \<and> ((shoot E r1 r2 s = s) =
        (\<exists>g. gameState s = Some g \<and> \<not> isCurrentPlayerAlive E (snapshots s g)))"
proof (intro conjI impI)
  assume "gameState s = None"
  then show "let dir = rotateY E (rotateX E (forward E) (origin E) (pitch (player s))) (origin E)
                   (yaw (player s));
           s' = onKeyDown E ''f'' r1 r2 s
       in s' = shoot E r1 r2 s
          \<and> actions (player s') = actions (player s) @
               [\<lparr>e_type = SHOOT, e_x = e_x (player s), e_y = e_y (player s),
                 e_z = e_z (player s), e_dx = v0 dir, e_dy = v1 dir, e_dz = v2 dir\<rparr>]
          \<and> pitch (player s') = pitch (player s) - 0.02 * r1
          \<and> yaw (player s') = yaw (player s) + 0.02 * r2 - 0.01"
    by (simp add: onKeyDown_def shoot_def createClientEvent_def Let_def)
next
  have fired: "length (actions (player (shoot E r1 r2 s))) = length (actions (player s)) + 1"
    if "\<not> (\<exists>g. gameState s = Some g \<and> \<not> isCurrentPlayerAlive E (snapshots s g))"
    using that
    by (auto simp: shoot_def createClientEvent_def Let_def split: option.splits)
  show "(shoot E r1 r2 s = s) =
        (\<exists>g. gameState s = Some g \<and> \<not> isCurrentPlayerAlive E (snapshots s g))"
  proof
    assume eq: "shoot E r1 r2 s = s"
    show "\<exists>g. gameState s = Some g \<and> \<not> isCurrentPlayerAlive E (snapshots s g)"
    proof (rule ccontr)
      assume "\<not> (\<exists>g. gameState s = Some g \<and> \<not> isCurrentPlayerAlive E (snapshots s g))"
      from fired [OF this] eq show False by simp
    qed
  next
    assume "\<exists>g. gameState s = Some g \<and> \<not> isCurrentPlayerAlive E (snapshots s g)"
    then show "shoot E r1 r2 s = s"
      by (auto simp: shoot_def)
  qed
qed

text \<open>C10, witness: the f key on the client as loaded, with both random numbers one
  half.\<close>

theorem C10_witness:
  "gameState (initialClient ''a'') = None
   \<and> actions (player (onKeyDown exampleEnv ''f'' (1/2) (1/2) (initialClient ''a'')))
       = [\<lparr>e_type = SHOOT, e_x = 0, e_y = 200, e_z = 0,
           e_dx = - (cos (1/10) * sin (1/10)), e_dy = sin (1/10),
           e_dz = - (cos (1/10) * cos (1/10))\<rparr>]
   \<and> pitch (player (onKeyDown exampleEnv ''f'' (1/2) (1/2) (initialClient ''a''))) = 9/100
   \<and> yaw (player (onKeyDown exampleEnv ''f'' (1/2) (1/2) (initialClient ''a''))) = 1/10"
proof -
  have h: "gameState (initialClient ''a'') = None"
    by (rule initial_player)
  from C10_fire_without_snapshot [of "initialClient ''a''" exampleEnv "1/2" "1/2"] h
  show ?thesis
    by (clarsimp simp: Let_def initial_shot_direction initial_player v0_def v1_def v2_def)
qed

end
